theory Spec2Isabelle
  imports Main "HOL-Library.AList"
begin

section \<open>JavaScript built-ins used by the sources\<close>

text \<open>
  \<open>Array.prototype.indexOf\<close>: the index of the first element equal to \<open>x\<close>, or \<open>-1\<close>.
\<close>

fun indexOf :: "'a list \<Rightarrow> 'a \<Rightarrow> int" where
  "indexOf [] x = - 1"
| "indexOf (y # ys) x =
     (if y = x then 0 else (let i = indexOf ys x in if i = - 1 then - 1 else i + 1))"

text \<open>
  \<open>Array.prototype.splice(start, deleteCount)\<close> with no inserted items; the value is the
  array after the mutation. A negative \<open>start\<close> counts from the end of the array.
\<close>

definition splice_js :: "'a list \<Rightarrow> int \<Rightarrow> int \<Rightarrow> 'a list" where
  "splice_js xs start deleteCount =
     (let len = int (length xs);
          actualStart = (if start < 0 then max (len + start) 0 else min start len);
          actualDeleteCount = min (max deleteCount 0) (len - actualStart)
      in take (nat actualStart) xs @ drop (nat (actualStart + actualDeleteCount)) xs)"

text \<open>\<open>String.prototype.charAt\<close>: the empty string when the index is out of range.\<close>

definition charAt :: "string \<Rightarrow> nat \<Rightarrow> string" where
  "charAt s i = (if i < length s then [s ! i] else [])"

text \<open>Decimal rendering of a number inside a template literal.\<close>

fun show_nat :: "nat \<Rightarrow> string" where
  "show_nat n =
     (if n < 10 then [char_of (48 + n)]
      else show_nat (n div 10) @ [char_of (48 + n mod 10)])"

declare show_nat.simps [simp del]

definition show_int :: "int \<Rightarrow> string" where
  "show_int i = (if i < 0 then ''-'' @ show_nat (nat (- i)) else show_nat (nat i))"

text \<open>
  A value produced by \<open>JSON.parse\<close>. The negotiation payloads (\<open>offer\<close>, \<open>answer\<close>,
  \<open>iceCandidate\<close>) are such values; the server never looks inside them.
\<close>

datatype json =
    JNull
  | JBool bool
  | JNum int
  | JStr string
  | JArr "json list"
  | JObj "(string \<times> json) list"


section \<open>messages.ts\<close>

datatype SignalingMessageType =
    Offer | Answer | IceCandidate | ClientId | PeerList
  | CreateRoom | JoinRoom | LeaveRoom | Error | JoinOrCreate

fun type_code :: "SignalingMessageType \<Rightarrow> int" where
  "type_code Offer = 0"
| "type_code Answer = 1"
| "type_code IceCandidate = 2"
| "type_code ClientId = 3"
| "type_code PeerList = 4"
| "type_code CreateRoom = 5"
| "type_code JoinRoom = 6"
| "type_code LeaveRoom = 7"
| "type_code Error = 8"
| "type_code JoinOrCreate = 9"

text \<open>
  The interface \<open>SignalingContent\<close>: the object that \<open>JSON.parse\<close> yields and
  \<open>JSON.stringify\<close> consumes. An optional field is \<open>None\<close> when the property is absent.
  \<open>c_type\<close> is \<open>None\<close> when \<open>content.type == null\<close>. The fields carry the prefix \<open>c_\<close>.
\<close>

record SignalingContent =
  c_type :: "int option"
  c_targetId :: string
  c_senderId :: string
  c_offer :: "json option"
  c_offerTargetId :: "string option"
  c_answer :: "json option"
  c_iceCandidate :: "json option"
  c_clientId :: "string option"
  c_peerList :: "string list option"
  c_roomCode :: "string option"
  c_roomId :: "string option"
  c_errorMessage :: "string option"

text \<open>
  The class hierarchy under \<open>SignalingMessage\<close>, one constructor per class, with the
  arguments of the class's TypeScript constructor in their order.
\<close>

datatype SignalingMessage =
    SignalingOffer string string json
  | SignalingAnswer string string json
  | SignalingIceCandidate string string json
  | SignalingClientId string string string
  | SignalingPeerList string string "string list" string string
  | SignalingCreateRoom string string
  | SignalingJoinRoom string string
  | SignalingJoinOrCreateRoom string string
  | SignalingLeaveRoom string
  | SignalingError string string

text \<open>The fields \<open>type\<close>, \<open>targetId\<close> and \<open>senderId\<close> that the base constructor sets.\<close>

fun msg_type :: "SignalingMessage \<Rightarrow> SignalingMessageType" where
  "msg_type (SignalingOffer t s p) = Offer"
| "msg_type (SignalingAnswer t s p) = Answer"
| "msg_type (SignalingIceCandidate t s p) = IceCandidate"
| "msg_type (SignalingClientId t s i) = ClientId"
| "msg_type (SignalingPeerList t s ps c r) = PeerList"
| "msg_type (SignalingCreateRoom s c) = CreateRoom"
| "msg_type (SignalingJoinRoom s c) = JoinRoom"
| "msg_type (SignalingJoinOrCreateRoom s r) = JoinOrCreate"
| "msg_type (SignalingLeaveRoom s) = LeaveRoom"
| "msg_type (SignalingError t m) = Error"

fun msg_targetId :: "SignalingMessage \<Rightarrow> string" where
  "msg_targetId (SignalingOffer t s p) = t"
| "msg_targetId (SignalingAnswer t s p) = t"
| "msg_targetId (SignalingIceCandidate t s p) = t"
| "msg_targetId (SignalingClientId t s i) = t"
| "msg_targetId (SignalingPeerList t s ps c r) = t"
| "msg_targetId (SignalingCreateRoom s c) = ''''"
| "msg_targetId (SignalingJoinRoom s c) = ''''"
| "msg_targetId (SignalingJoinOrCreateRoom s r) = ''''"
| "msg_targetId (SignalingLeaveRoom s) = ''''"
| "msg_targetId (SignalingError t m) = t"

fun msg_senderId :: "SignalingMessage \<Rightarrow> string" where
  "msg_senderId (SignalingOffer t s p) = s"
| "msg_senderId (SignalingAnswer t s p) = s"
| "msg_senderId (SignalingIceCandidate t s p) = s"
| "msg_senderId (SignalingClientId t s i) = s"
| "msg_senderId (SignalingPeerList t s ps c r) = s"
| "msg_senderId (SignalingCreateRoom s c) = s"
| "msg_senderId (SignalingJoinRoom s c) = s"
| "msg_senderId (SignalingJoinOrCreateRoom s r) = s"
| "msg_senderId (SignalingLeaveRoom s) = s"
| "msg_senderId (SignalingError t m) = ''''"

text \<open>
  What the sources throw. \<open>SyntaxError\<close> is thrown by \<open>JSON.parse\<close>, \<open>TypeError\<close> by a
  method call on \<open>undefined\<close>.
\<close>

datatype exception =
    InvalidMessageException string
  | ParseError string
  | SyntaxError
  | TypeError

definition show_type :: "int option \<Rightarrow> string" where
  "show_type t = (case t of None \<Rightarrow> ''undefined'' | Some n \<Rightarrow> show_int n)"

definition expected :: "SignalingMessageType \<Rightarrow> SignalingContent \<Rightarrow> exception" where
  "expected t content =
     ParseError (''Expected message type '' @ show_int (type_code t) @ '' - got ''
                 @ show_type (c_type content) @ ''.'')"

text \<open>\<open>SignalingMessage.toContent\<close>, the base method.\<close>

definition base_toContent :: "SignalingMessage \<Rightarrow> SignalingContent" where
  "base_toContent m =
     \<lparr> c_type = Some (type_code (msg_type m)),
       c_targetId = msg_targetId m,
       c_senderId = msg_senderId m,
       c_offer = None, c_offerTargetId = None, c_answer = None, c_iceCandidate = None,
       c_clientId = None, c_peerList = None, c_roomCode = None, c_roomId = None,
       c_errorMessage = None \<rparr>"

text \<open>\<open>toContent\<close> as each class overrides it; \<open>SignalingLeaveRoom\<close> inherits the base.\<close>

definition toContent :: "SignalingMessage \<Rightarrow> SignalingContent" where
  "toContent m =
     (case m of
        SignalingOffer t s offer \<Rightarrow> (base_toContent m)\<lparr>c_offer := Some offer\<rparr>
      | SignalingAnswer t s answer \<Rightarrow> (base_toContent m)\<lparr>c_answer := Some answer\<rparr>
      | SignalingIceCandidate t s candidate \<Rightarrow>
          (base_toContent m)\<lparr>c_iceCandidate := Some candidate\<rparr>
      | SignalingClientId t s i \<Rightarrow> (base_toContent m)\<lparr>c_clientId := Some i\<rparr>
      | SignalingPeerList t s peerList roomCode roomId \<Rightarrow>
          (base_toContent m)\<lparr>c_peerList := Some peerList, c_roomCode := Some roomCode,
                              c_roomId := Some roomId\<rparr>
      | SignalingCreateRoom s roomCode \<Rightarrow> (base_toContent m)\<lparr>c_roomCode := Some roomCode\<rparr>
      | SignalingJoinRoom s roomCode \<Rightarrow> (base_toContent m)\<lparr>c_roomCode := Some roomCode\<rparr>
      | SignalingJoinOrCreateRoom s roomId \<Rightarrow> (base_toContent m)\<lparr>c_roomId := Some roomId\<rparr>
      | SignalingLeaveRoom s \<Rightarrow> base_toContent m
      | SignalingError t message \<Rightarrow> (base_toContent m)\<lparr>c_errorMessage := Some message\<rparr>)"

text \<open>
  \<open>toJson\<close>. \<open>JSON.stringify\<close> belongs to the runtime and is a parameter; \<open>'w\<close> is the
  type of the wire text.
\<close>

definition toJson :: "(SignalingContent \<Rightarrow> 'w) \<Rightarrow> SignalingMessage \<Rightarrow> 'w" where
  "toJson JSON_stringify m = JSON_stringify (toContent m)"

text \<open>
  The static \<open>fromContent\<close> of each class. A payload is missing when the property is
  absent or \<open>null\<close> (\<open>== null\<close>).
\<close>

definition SignalingOffer_fromContent :: "SignalingContent \<Rightarrow> exception + SignalingMessage" where
  "SignalingOffer_fromContent content =
     (if c_type content \<noteq> Some (type_code Offer) then Inl (expected Offer content)
      else case c_offer content of
             None \<Rightarrow> Inl (InvalidMessageException ''Offer is required.'')
           | Some JNull \<Rightarrow> Inl (InvalidMessageException ''Offer is required.'')
           | Some offer \<Rightarrow> Inr (SignalingOffer (c_targetId content) (c_senderId content) offer))"

definition SignalingAnswer_fromContent :: "SignalingContent \<Rightarrow> exception + SignalingMessage" where
  "SignalingAnswer_fromContent content =
     (if c_type content \<noteq> Some (type_code Answer) then Inl (expected Answer content)
      else case c_answer content of
             None \<Rightarrow> Inl (InvalidMessageException ''Answer is required.'')
           | Some JNull \<Rightarrow> Inl (InvalidMessageException ''Answer is required.'')
           | Some answer \<Rightarrow>
               Inr (SignalingAnswer (c_targetId content) (c_senderId content) answer))"

definition SignalingIceCandidate_fromContent ::
  "SignalingContent \<Rightarrow> exception + SignalingMessage" where
  "SignalingIceCandidate_fromContent content =
     (if c_type content \<noteq> Some (type_code IceCandidate)
      then Inl (expected IceCandidate content)
      else case c_iceCandidate content of
             None \<Rightarrow> Inl (InvalidMessageException ''Candidate is required.'')
           | Some JNull \<Rightarrow> Inl (InvalidMessageException ''Candidate is required.'')
           | Some candidate \<Rightarrow>
               Inr (SignalingIceCandidate (c_targetId content) (c_senderId content) candidate))"

definition SignalingClientId_fromContent ::
  "SignalingContent \<Rightarrow> exception + SignalingMessage" where
  "SignalingClientId_fromContent content =
     (if c_type content \<noteq> Some (type_code ClientId) then Inl (expected ClientId content)
      else case c_clientId content of
             None \<Rightarrow> Inl (InvalidMessageException ''Id is required.'')
           | Some i \<Rightarrow> Inr (SignalingClientId (c_targetId content) (c_senderId content) i))"

definition SignalingPeerList_fromContent ::
  "SignalingContent \<Rightarrow> exception + SignalingMessage" where
  "SignalingPeerList_fromContent content =
     (if c_type content \<noteq> Some (type_code PeerList) then Inl (expected PeerList content)
      else case c_peerList content of
             None \<Rightarrow> Inl (InvalidMessageException ''peerList is required.'')
           | Some peerList \<Rightarrow>
      (case c_roomCode content of
             None \<Rightarrow> Inl (InvalidMessageException ''roomCode is required.'')
           | Some roomCode \<Rightarrow>
      (case c_roomId content of
             None \<Rightarrow> Inl (InvalidMessageException ''roomId is required.'')
           | Some roomId \<Rightarrow>
               Inr (SignalingPeerList (c_targetId content) (c_senderId content)
                      peerList roomCode roomId))))"

definition SignalingCreateRoom_fromContent ::
  "SignalingContent \<Rightarrow> exception + SignalingMessage" where
  "SignalingCreateRoom_fromContent content =
     (if c_type content \<noteq> Some (type_code CreateRoom) then Inl (expected CreateRoom content)
      else case c_roomCode content of
             None \<Rightarrow> Inl (InvalidMessageException ''roomCode is required.'')
           | Some roomCode \<Rightarrow> Inr (SignalingCreateRoom (c_senderId content) roomCode))"

definition SignalingJoinRoom_fromContent ::
  "SignalingContent \<Rightarrow> exception + SignalingMessage" where
  "SignalingJoinRoom_fromContent content =
     (if c_type content \<noteq> Some (type_code JoinRoom) then Inl (expected JoinRoom content)
      else case c_roomCode content of
             None \<Rightarrow> Inl (InvalidMessageException ''roomCode is required.'')
           | Some roomCode \<Rightarrow> Inr (SignalingJoinRoom (c_senderId content) roomCode))"

definition SignalingJoinOrCreateRoom_fromContent ::
  "SignalingContent \<Rightarrow> exception + SignalingMessage" where
  "SignalingJoinOrCreateRoom_fromContent content =
     (if c_type content \<noteq> Some (type_code JoinOrCreate)
      then Inl (expected JoinOrCreate content)
      else case c_roomId content of
             None \<Rightarrow> Inl (InvalidMessageException ''roomId is required.'')
           | Some roomId \<Rightarrow> Inr (SignalingJoinOrCreateRoom (c_senderId content) roomId))"

definition SignalingLeaveRoom_fromContent ::
  "SignalingContent \<Rightarrow> exception + SignalingMessage" where
  "SignalingLeaveRoom_fromContent content =
     (if c_type content \<noteq> Some (type_code LeaveRoom) then Inl (expected LeaveRoom content)
      else Inr (SignalingLeaveRoom (c_senderId content)))"

definition SignalingError_fromContent ::
  "SignalingContent \<Rightarrow> exception + SignalingMessage" where
  "SignalingError_fromContent content =
     (if c_type content \<noteq> Some (type_code Error) then Inl (expected Error content)
      else case c_errorMessage content of
             None \<Rightarrow> Inl (InvalidMessageException ''errorMessage is required.'')
           | Some message \<Rightarrow> Inr (SignalingError (c_targetId content) message))"

text \<open>
  \<open>SignalingMessage.fromJson\<close>. \<open>JSON.parse\<close> belongs to the runtime and is a parameter:
  it yields \<open>None\<close> where it throws or yields no object (reading \<open>type\<close> from \<open>null\<close>
  throws as well; the model gives \<open>SyntaxError\<close> in both cases), and otherwise the
  content object, which the source casts to \<open>SignalingContent\<close> unchecked (a text whose
  fields do not have the declared types is outside this model). The \<open>switch\<close> keeps the
  order of the source.
\<close>

definition fromJson ::
  "('w \<Rightarrow> SignalingContent option) \<Rightarrow> 'w \<Rightarrow> exception + SignalingMessage" where
  "fromJson JSON_parse json =
     (case JSON_parse json of
        None \<Rightarrow> Inl SyntaxError
      | Some content \<Rightarrow>
         (case c_type content of
            None \<Rightarrow> Inl (InvalidMessageException ''Message type is required'')
          | Some t \<Rightarrow>
              if t = type_code Offer then SignalingOffer_fromContent content
              else if t = type_code Answer then SignalingAnswer_fromContent content
              else if t = type_code IceCandidate then SignalingIceCandidate_fromContent content
              else if t = type_code ClientId then SignalingClientId_fromContent content
              else if t = type_code PeerList then SignalingPeerList_fromContent content
              else if t = type_code CreateRoom then SignalingCreateRoom_fromContent content
              else if t = type_code JoinRoom then SignalingJoinRoom_fromContent content
              else if t = type_code LeaveRoom then SignalingLeaveRoom_fromContent content
              else if t = type_code JoinOrCreate
                then SignalingJoinOrCreateRoom_fromContent content
              else if t = type_code Error then SignalingError_fromContent content
              else Inl (InvalidMessageException
                          (''Invalid message type '' @ show_int t @ ''.''))))"

text \<open>
  The frame the transport hands over (\<open>RawData\<close>): one buffer or an array of buffers. A
  buffer is its bytes; \<open>TextDecoder\<close> hands the same bytes to \<open>JSON.parse\<close>.
\<close>

datatype RawData = Single string | Chunks "string list"

definition fromBuffer ::
  "(string \<Rightarrow> SignalingContent option) \<Rightarrow> string \<Rightarrow> exception + SignalingMessage" where
  "fromBuffer JSON_parse buffer = fromJson JSON_parse buffer"

text \<open>The loop of \<open>parseMessage\<close> over an array of buffers; the first throw ends it.\<close>

fun parseBuffers ::
  "(string \<Rightarrow> SignalingContent option) \<Rightarrow> string list \<Rightarrow> SignalingMessage list
     \<Rightarrow> exception + SignalingMessage list" where
  "parseBuffers JSON_parse [] result = Inr result"
| "parseBuffers JSON_parse (buffer # data) result =
     (case fromBuffer JSON_parse buffer of
        Inl e \<Rightarrow> Inl e
      | Inr message \<Rightarrow> parseBuffers JSON_parse data (result @ [message]))"

definition parseMessage ::
  "(string \<Rightarrow> SignalingContent option) \<Rightarrow> RawData \<Rightarrow> exception + SignalingMessage list" where
  "parseMessage JSON_parse data =
     (case data of
        Single buffer \<Rightarrow>
          (case fromBuffer JSON_parse buffer of Inl e \<Rightarrow> Inl e | Inr m \<Rightarrow> Inr [m])
      | Chunks buffers \<Rightarrow> parseBuffers JSON_parse buffers [])"

text \<open>The factory methods of \<open>SignalingError\<close>.\<close>

definition roomNotFound :: "string \<Rightarrow> string \<Rightarrow> SignalingMessage" where
  "roomNotFound roomCode targetId =
     SignalingError targetId (''Room '' @ roomCode @ '' does not exist.'')"

definition roomAlreadyExists :: "string \<Rightarrow> string \<Rightarrow> SignalingMessage" where
  "roomAlreadyExists roomCode targetId =
     SignalingError targetId (''Room '' @ roomCode @ '' already exists.'')"


section \<open>The server\<close>

text \<open>
  A \<open>WebSocket\<close> object is named by a number. \<open>ClientInfo\<close> is the interface of the source.
\<close>

record ClientInfo =
  socket :: nat
  roomId :: "string option"

definition UNKNOWN_ORIGIN :: nat where [simp]: "UNKNOWN_ORIGIN = 4000"
definition INVALID_MESSAGE :: nat where [simp]: "INVALID_MESSAGE = 4002"
definition TOO_MANY_CONNECTIONS :: nat where [simp]: "TOO_MANY_CONNECTIONS = 4029"
definition RATE_LIMIT_EXCEEDED :: nat where [simp]: "RATE_LIMIT_EXCEEDED = 4030"

definition MaxMessageSize :: nat where [simp]: "MaxMessageSize = 10000"
definition MaxConnectionsPerIp :: int where [simp]: "MaxConnectionsPerIp = 10"
definition MaxMessagesPerSeconds :: nat where [simp]: "MaxMessagesPerSeconds = 20"

definition RoomCodeCharacters :: string where [simp]:
  "RoomCodeCharacters = ''ABCDEFGHIJKLMNOPQRSTUVWXYZ0123456789''"
definition RoomCodeLength :: nat where [simp]: "RoomCodeLength = 4"

text \<open>
  What the server does to the transport: \<open>socket.send(message.toBuffer())\<close> and
  \<open>socket.close(code, reason)\<close>. Calls of \<open>console\<close> are left out.
\<close>

datatype effect =
    Send nat SignalingMessage
  | Close nat nat string

text \<open>
  The module-level maps. A JavaScript \<open>Map\<close> keeps its keys in insertion order, \<open>set\<close>
  on a present key replaces the value in place, and \<open>forEach\<close> visits the entries in that
  order: an association list with \<open>AList.update\<close>, \<open>AList.delete\<close> and \<open>map_of\<close>.
  \<open>sent\<close> is the trace of transport effects, oldest first.
\<close>

record state =
  connectionCounts :: "(string \<times> int) list"
  clients :: "(string \<times> ClientInfo) list"
  rooms :: "(string \<times> string list) list"
  roomCodeToId :: "(string \<times> string) list"
  roomIdToCode :: "(string \<times> string) list"
  sent :: "effect list"

definition initial :: state where
  "initial = \<lparr> connectionCounts = [], clients = [], rooms = [], roomCodeToId = [],
               roomIdToCode = [], sent = [] \<rparr>"

text \<open>
  The values the runtime draws for one message: the result of \<open>crypto.randomUUID()\<close> and,
  for the \<open>i\<close>-th round of the loop in \<open>generateRoomCode\<close>, the value
  \<open>Math.floor(Math.random() * RoomCodeCharacters.length)\<close>.
\<close>

record random =
  uuid :: string
  draw :: "nat \<Rightarrow> nat"

definition emit :: "effect list \<Rightarrow> state \<Rightarrow> state" where
  "emit es s = s\<lparr>sent := sent s @ es\<rparr>"

definition broadcast :: "SignalingMessage \<Rightarrow> string \<Rightarrow> state \<Rightarrow> state" where
  "broadcast message rid s =
     (case map_of (rooms s) rid of
        None \<Rightarrow> s
      | Some peers \<Rightarrow>
          emit (concat (map (\<lambda>peer. case map_of (clients s) peer of
                                        None \<Rightarrow> []
                                      | Some client \<Rightarrow> [Send (socket client) message])
                            peers)) s)"

definition broadcastPeerList :: "string \<Rightarrow> state \<Rightarrow> state" where
  "broadcastPeerList rid s =
     (case map_of (rooms s) rid of
        None \<Rightarrow> s
      | Some peers \<Rightarrow>
         (case map_of (roomIdToCode s) rid of
            None \<Rightarrow> s
          | Some code \<Rightarrow> broadcast (SignalingPeerList [] [] peers code rid) rid s))"

definition forwardMessage :: "SignalingMessage \<Rightarrow> state \<Rightarrow> state" where
  "forwardMessage message s =
     (case map_of (clients s) (msg_targetId message) of
        None \<Rightarrow> s
      | Some client \<Rightarrow> emit [Send (socket client) message] s)"

definition addRoom :: "string \<Rightarrow> string \<Rightarrow> string list \<Rightarrow> state \<Rightarrow> state" where
  "addRoom rid code peers s =
     s\<lparr> rooms := AList.update rid peers (rooms s),
        roomCodeToId := AList.update code rid (roomCodeToId s),
        roomIdToCode := AList.update rid code (roomIdToCode s) \<rparr>"

text \<open>
  The parameter \<open>client\<close> of the source is a reference to the \<open>ClientInfo\<close> object that
  \<open>handleMessage\<close> has read from \<open>clients\<close> under the sender's id. Here \<open>client\<close> is the
  value read, and the assignment \<open>client.roomId = ...\<close> writes the registry entry of that
  id.
\<close>

definition setRoomId :: "string \<Rightarrow> ClientInfo \<Rightarrow> string \<Rightarrow> state \<Rightarrow> state" where
  "setRoomId clientId client rid s =
     s\<lparr> clients := AList.update clientId (client\<lparr>roomId := Some rid\<rparr>) (clients s) \<rparr>"

text \<open>
  \<open>createRoom\<close>, \<open>joinRoom\<close>, \<open>joinOrCreateRoom\<close> and \<open>leaveRoom\<close> take the fields of their
  message (\<open>senderId\<close>, and \<open>roomCode\<close> or \<open>roomId\<close>) in place of the message object. A room
  id is written \<open>rid\<close>.
\<close>

definition createRoom ::
  "string \<Rightarrow> string \<Rightarrow> string \<Rightarrow> nat \<Rightarrow> ClientInfo \<Rightarrow> state \<Rightarrow> state" where
  "createRoom randomUUID senderId roomCode sock client s =
     (if map_of (roomCodeToId s) roomCode \<noteq> None
      then emit [Send sock (roomAlreadyExists roomCode senderId)] s
      else let rid = randomUUID;
               s1 = addRoom rid roomCode [senderId] s;
               s2 = setRoomId senderId client rid s1
           in broadcastPeerList rid s2)"

text \<open>
  \<open>joinRoomById\<close>: \<open>rooms.get(roomId)!\<close> is \<open>undefined\<close> for an id with no room, and the
  call of \<open>push\<close> on it throws.
\<close>

definition joinRoomById ::
  "string \<Rightarrow> string \<Rightarrow> ClientInfo \<Rightarrow> state \<Rightarrow> exception + state" where
  "joinRoomById rid clientId client s =
     (case map_of (rooms s) rid of
        None \<Rightarrow> Inl TypeError
      | Some peers \<Rightarrow>
          (let s1 = s\<lparr>rooms := AList.update rid (peers @ [clientId]) (rooms s)\<rparr>;
               s2 = setRoomId clientId client rid s1
           in Inr (broadcastPeerList rid s2)))"

definition joinRoom ::
  "string \<Rightarrow> string \<Rightarrow> nat \<Rightarrow> ClientInfo \<Rightarrow> state \<Rightarrow> exception + state" where
  "joinRoom senderId roomCode sock client s =
     (case map_of (roomCodeToId s) roomCode of
        None \<Rightarrow> Inr (emit [Send sock (roomNotFound roomCode senderId)] s)
      | Some rid \<Rightarrow> joinRoomById rid senderId client s)"

definition generateRoomCode :: "(nat \<Rightarrow> nat) \<Rightarrow> string" where
  "generateRoomCode drw =
     concat (map (\<lambda>i. charAt RoomCodeCharacters (drw i)) [0..<RoomCodeLength])"

definition joinOrCreateRoom ::
  "(nat \<Rightarrow> nat) \<Rightarrow> string \<Rightarrow> string \<Rightarrow> ClientInfo \<Rightarrow> state \<Rightarrow> exception + state" where
  "joinOrCreateRoom drw senderId rid client s =
     (let s1 = (if map_of (rooms s) rid = None
                then addRoom rid (generateRoomCode drw) [] s else s)
      in joinRoomById rid senderId client s1)"

definition leaveRoom :: "string \<Rightarrow> ClientInfo \<Rightarrow> state \<Rightarrow> state" where
  "leaveRoom senderId client s =
     (case roomId client of
        None \<Rightarrow> s
      | Some roomCode \<Rightarrow>
         (case map_of (rooms s) roomCode of
            None \<Rightarrow> s
          | Some room \<Rightarrow>
             (let room' = splice_js room (indexOf room senderId) 1;
                  s1 = s\<lparr>rooms := AList.update roomCode room' (rooms s)\<rparr>
              in if length room' = 0
                 then s1\<lparr>rooms := AList.delete roomCode (rooms s1)\<rparr>
                 else broadcastPeerList roomCode s1)))"

definition handleMessage ::
  "random \<Rightarrow> SignalingMessage \<Rightarrow> nat \<Rightarrow> state \<Rightarrow> exception + state" where
  "handleMessage rnd message sock s =
     (case map_of (clients s) (msg_senderId message) of
        None \<Rightarrow> Inr s
      | Some sender \<Rightarrow>
         (case message of
            SignalingCreateRoom senderId roomCode \<Rightarrow>
              Inr (createRoom (uuid rnd) senderId roomCode sock sender s)
          | SignalingJoinRoom senderId roomCode \<Rightarrow> joinRoom senderId roomCode sock sender s
          | SignalingJoinOrCreateRoom senderId rid \<Rightarrow>
              joinOrCreateRoom (draw rnd) senderId rid sender s
          | SignalingLeaveRoom senderId \<Rightarrow> Inr (leaveRoom senderId sender s)
          | SignalingOffer t sd p \<Rightarrow> Inr (forwardMessage message s)
          | SignalingAnswer t sd p \<Rightarrow> Inr (forwardMessage message s)
          | SignalingIceCandidate t sd p \<Rightarrow> Inr (forwardMessage message s)
          | SignalingClientId t sd i \<Rightarrow>
              Inr (emit [Close sock INVALID_MESSAGE ''Invalid message type''] s)
          | SignalingPeerList t sd ps c r \<Rightarrow>
              Inr (emit [Close sock INVALID_MESSAGE ''Invalid message type''] s)
          | SignalingError t m \<Rightarrow>
              Inr (emit [Close sock INVALID_MESSAGE ''Invalid message type''] s)))"

text \<open>
  \<open>removeClient\<close>. The callback of \<open>rooms.forEach\<close> removes the first occurrence of the
  id from each member array and collects the ids of the rooms whose array is then empty;
  the loop after it deletes those rooms.
\<close>

definition removeFrom :: "string \<Rightarrow> string list \<Rightarrow> string list" where
  "removeFrom clientId room =
     (let index = indexOf room clientId
      in if index \<noteq> - 1 then splice_js room index 1 else room)"

definition removeClient :: "string \<Rightarrow> string option \<Rightarrow> state \<Rightarrow> state" where
  "removeClient clientId ip s =
     (case ip of
        None \<Rightarrow> s
      | Some ip \<Rightarrow>
         (let count = (case map_of (connectionCounts s) ip of None \<Rightarrow> 0 | Some c \<Rightarrow> c) - 1;
              counts = (if count \<le> 0 then AList.delete ip (connectionCounts s)
                        else AList.update ip count (connectionCounts s));
              scanned = map (\<lambda>(rid, room). (rid, removeFrom clientId room)) (rooms s);
              toDelete = map fst (filter (\<lambda>(rid, room). length room = 0) scanned)
          in s\<lparr> connectionCounts := counts,
                clients := AList.delete clientId (clients s),
                rooms := fold AList.delete toDelete scanned \<rparr>))"

definition byteLength :: "RawData \<Rightarrow> nat" where
  "byteLength buffer =
     (case buffer of
        Single b \<Rightarrow> length b
      | Chunks bs \<Rightarrow> fold (\<lambda>b sum. sum + length b) bs 0)"

definition checkMessageSize :: "RawData \<Rightarrow> nat \<Rightarrow> state \<Rightarrow> bool \<times> state" where
  "checkMessageSize buffer sock s =
     (if byteLength buffer > MaxMessageSize
      then (False, emit [Close sock 1009 ''Message too large''] s)
      else (True, s))"

definition checkConnectionCount :: "nat \<Rightarrow> string option \<Rightarrow> state \<Rightarrow> bool \<times> state" where
  "checkConnectionCount sock ip s =
     (case ip of
        None \<Rightarrow>
          (False, emit [Close sock UNKNOWN_ORIGIN ''Unable to determine client address.''] s)
      | Some ip \<Rightarrow>
         (let count = (case map_of (connectionCounts s) ip of None \<Rightarrow> 0 | Some c \<Rightarrow> c)
          in if count > MaxConnectionsPerIp
             then (False, emit [Close sock TOO_MANY_CONNECTIONS ''Too many connections.''] s)
             else (True, s\<lparr>connectionCounts := AList.update ip (count + 1)
                                                 (connectionCounts s)\<rparr>)))"

text \<open>
  The variables that the \<open>connection\<close> callback closes over: the socket, the address of
  the request, the id given to the client, and the two variables of the rate gate.
\<close>

record connection =
  conn_socket :: nat
  conn_remoteAddress :: "string option"
  conn_clientId :: string
  messageCount :: nat
  resetAt :: int

text \<open>
  The \<open>connection\<close> callback up to the registration of its listeners; \<open>now\<close> is the value
  of \<open>Date.now()\<close>. A refused connection gets no listener.
\<close>

definition onConnection ::
  "nat \<Rightarrow> string option \<Rightarrow> string \<Rightarrow> int \<Rightarrow> state \<Rightarrow> connection option \<times> state" where
  "onConnection sock ip randomUUID now s =
     (case checkConnectionCount sock ip s of
        (False, s1) \<Rightarrow> (None, s1)
      | (True, s1) \<Rightarrow>
         (let clientId = randomUUID;
              s2 = s1\<lparr>clients := AList.update clientId \<lparr>socket = sock, roomId = None\<rparr>
                                    (clients s1)\<rparr>;
              s3 = emit [Send sock (SignalingClientId clientId [] clientId)] s2
          in (Some \<lparr> conn_socket = sock, conn_remoteAddress = ip, conn_clientId = clientId,
                     messageCount = 0, resetAt = now + 1000 \<rparr>, s3)))"

text \<open>The loop \<open>for (const message of messages) handleMessage(message, socket)\<close>.\<close>

fun handleMessages ::
  "(nat \<Rightarrow> random) \<Rightarrow> nat \<Rightarrow> SignalingMessage list \<Rightarrow> nat \<Rightarrow> state \<Rightarrow> exception + state" where
  "handleMessages rnd i [] sock s = Inr s"
| "handleMessages rnd i (message # messages) sock s =
     (case handleMessage (rnd i) message sock s of
        Inl e \<Rightarrow> Inl e
      | Inr s' \<Rightarrow> handleMessages rnd (Suc i) messages sock s')"

text \<open>
  The \<open>message\<close> listener of a connection; \<open>now\<close> is the value of \<open>Date.now()\<close> and
  \<open>rnd i\<close> holds the random values for the \<open>i\<close>-th message of the frame. An exception
  that leaves \<open>handleMessage\<close> is not caught by the listener. The listener runs to its
  end before the next event is handled: the suspension at \<open>await\<close> is not modelled.
\<close>

definition onMessage ::
  "(string \<Rightarrow> SignalingContent option) \<Rightarrow> (nat \<Rightarrow> random) \<Rightarrow> int \<Rightarrow> RawData
     \<Rightarrow> connection \<times> state \<Rightarrow> exception + connection \<times> state" where
  "onMessage JSON_parse rnd now buffer cs =
     (let c = fst cs; s = snd cs;
          c1 = (if now > resetAt c then c\<lparr>messageCount := 0, resetAt := now\<rparr> else c)
      in if messageCount c1 > MaxMessagesPerSeconds
         then Inr (c1, emit [Close (conn_socket c) RATE_LIMIT_EXCEEDED ''Rate limit exceeded.''] s)
         else
          (let c2 = c1\<lparr>messageCount := messageCount c1 + 1\<rparr>
           in case checkMessageSize buffer (conn_socket c) s of
                (False, s1) \<Rightarrow> Inr (c2, s1)
              | (True, s1) \<Rightarrow>
                 (case parseMessage JSON_parse buffer of
                    Inl e \<Rightarrow>
                      Inr (c2, emit [Close (conn_socket c) INVALID_MESSAGE ''Invalid message''] s1)
                  | Inr messages \<Rightarrow>
                     (case handleMessages rnd 0 messages (conn_socket c) s1 of
                        Inl e \<Rightarrow> Inl e
                      | Inr s2 \<Rightarrow> Inr (c2, s2)))))"

text \<open>The \<open>close\<close> listener of a connection.\<close>

definition onClose :: "connection \<Rightarrow> state \<Rightarrow> state" where
  "onClose c s = removeClient (conn_clientId c) (conn_remoteAddress c) s"

text \<open>A run of frames, each with its arrival time, through the \<open>message\<close> listener.\<close>

fun onMessages ::
  "(string \<Rightarrow> SignalingContent option) \<Rightarrow> (nat \<Rightarrow> random) \<Rightarrow> (int \<times> RawData) list
     \<Rightarrow> connection \<times> state \<Rightarrow> exception + connection \<times> state" where
  "onMessages JSON_parse rnd [] cs = Inr cs"
| "onMessages JSON_parse rnd ((now, buffer) # frames) cs =
     (case onMessage JSON_parse rnd now buffer cs of
        Inl e \<Rightarrow> Inl e
      | Inr cs' \<Rightarrow> onMessages JSON_parse rnd frames cs')"


section \<open>Runs of the server\<close>

text \<open>
  The operations that change the maps: the admission of a connection, the dispatch of one
  parsed message that arrived on a socket, and the cleanup after a connection closed. A
  run is any list of events: a message may name any sender and arrive on any socket, and
  a cleanup may name any client and address, so the runs of the server are among them. A
  run ends with the exception when a step throws.
\<close>

datatype event =
    Connect nat "string option" string int
  | Message random SignalingMessage nat
  | Disconnect string "string option"

fun step :: "event \<Rightarrow> state \<Rightarrow> exception + state" where
  "step (Connect sock ip randomUUID now) s = Inr (snd (onConnection sock ip randomUUID now s))"
| "step (Message rnd message sock) s = handleMessage rnd message sock s"
| "step (Disconnect clientId ip) s = Inr (removeClient clientId ip s)"

fun run :: "event list \<Rightarrow> state \<Rightarrow> exception + state" where
  "run [] s = Inr s"
| "run (e # es) s = (case step e s of Inl x \<Rightarrow> Inl x | Inr s' \<Rightarrow> run es s')"


section \<open>Properties of states, runs and messages\<close>

text \<open>Every room of the directory has a member.\<close>

definition nonempty_rooms :: "state \<Rightarrow> bool" where
  "nonempty_rooms s = list_all (\<lambda>p. snd p \<noteq> []) (rooms s)"

text \<open>The member lists of all rooms, one after the other.\<close>

definition members :: "state \<Rightarrow> string list" where
  "members s = concat (map snd (rooms s))"

text \<open>
  Every room id is a key of \<open>rooms\<close> once, and every connection id occurs at most once
  in all member lists together: no list repeats an id and no two lists share one.
\<close>

definition unique_members :: "state \<Rightarrow> bool" where
  "unique_members s = (distinct (map fst (rooms s)) \<and> distinct (members s))"

text \<open>
  The sender of a \<open>CreateRoom\<close>, \<open>JoinRoom\<close> or \<open>JoinOrCreate\<close> message is in no member
  list when the message is handled.
\<close>

fun joins_fresh :: "event \<Rightarrow> state \<Rightarrow> bool" where
  "joins_fresh (Message rnd m sock) s =
     (if msg_type m = CreateRoom \<or> msg_type m = JoinRoom \<or> msg_type m = JoinOrCreate
      then msg_senderId m \<notin> set (members s) else True)"
| "joins_fresh e s = True"

text \<open>A run in which every event meets \<open>joins_fresh\<close> in the state it is handled in.\<close>

fun fresh_run :: "event list \<Rightarrow> state \<Rightarrow> bool" where
  "fresh_run [] s = True"
| "fresh_run (e # es) s =
     (joins_fresh e s \<and> (case step e s of Inl x \<Rightarrow> True | Inr s' \<Rightarrow> fresh_run es s'))"

text \<open>
  The payload of an \<open>Offer\<close>, \<open>Answer\<close> or \<open>IceCandidate\<close> message is not \<open>null\<close>, as
  its TypeScript type demands.
\<close>

fun payload_present :: "SignalingMessage \<Rightarrow> bool" where
  "payload_present (SignalingOffer t s offer) = (offer \<noteq> JNull)"
| "payload_present (SignalingAnswer t s answer) = (answer \<noteq> JNull)"
| "payload_present (SignalingIceCandidate t s candidate) = (candidate \<noteq> JNull)"
| "payload_present m = True"


section \<open>Concrete runs\<close>

text \<open>
  Random values: the room id \<open>r1\<close> or \<open>r2\<close>, and draws that spell the room code
  \<open>ABCD\<close>.
\<close>

definition rnd1 :: random where
  "rnd1 = \<lparr>uuid = ''r1'', draw = (\<lambda>i. i)\<rparr>"

definition rnd2 :: random where
  "rnd2 = \<lparr>uuid = ''r2'', draw = (\<lambda>i. i)\<rparr>"

text \<open>Client \<open>A\<close> connects and creates the room \<open>AB12\<close>; client \<open>B\<close> connects and joins it.\<close>

definition two_members :: "event list" where
  "two_members =
     [Connect 1 (Some ''10.0.0.1'') ''A'' 0,
      Message rnd1 (SignalingCreateRoom ''A'' ''AB12'') 1,
      Connect 2 (Some ''10.0.0.2'') ''B'' 5,
      Message rnd1 (SignalingJoinRoom ''B'' ''AB12'') 2]"

text \<open>Then client \<open>C\<close> connects and joins too.\<close>

definition three_members :: "event list" where
  "three_members = two_members @
     [Connect 3 (Some ''10.0.0.3'') ''C'' 9,
      Message rnd1 (SignalingJoinRoom ''C'' ''AB12'') 3]"

text \<open>Client \<open>A\<close> connects, creates the room \<open>AB12\<close> and leaves it.\<close>

definition room_closed :: "event list" where
  "room_closed =
     [Connect 1 (Some ''10.0.0.1'') ''A'' 0,
      Message rnd1 (SignalingCreateRoom ''A'' ''AB12'') 1,
      Message rnd1 (SignalingLeaveRoom ''A'') 1]"

text \<open>Ten connections from one address, with the client ids \<open>1\<close> to \<open>10\<close>.\<close>

definition ten_connects :: "event list" where
  "ten_connects = map (\<lambda>i. Connect i (Some ''10.0.0.1'') (show_nat i) 0) [1..<11]"

text \<open>
  The connection of client \<open>A\<close>, admitted at time \<open>0\<close>, and the state after its
  admission.
\<close>

definition admitted :: connection where
  "admitted = \<lparr> conn_socket = 1, conn_remoteAddress = Some ''10.0.0.1'',
                conn_clientId = ''A'', messageCount = 0, resetAt = 1000 \<rparr>"

definition after_admission :: state where
  "after_admission =
     \<lparr> connectionCounts = [(''10.0.0.1'', 1)],
       clients = [(''A'', \<lparr>socket = 1, roomId = None\<rparr>)],
       rooms = [], roomCodeToId = [], roomIdToCode = [],
       sent = [Send 1 (SignalingClientId ''A'' [] ''A'')] \<rparr>"

text \<open>
  Frames that each carry the encoding of \<open>SignalingLeaveRoom(A)\<close>, one at each of the given
  times, and the value of \<open>JSON.parse\<close> on their text.
\<close>

definition leave_parse :: "string \<Rightarrow> SignalingContent option" where
  "leave_parse json = Some (toContent (SignalingLeaveRoom ''A''))"

definition leave_frames :: "int list \<Rightarrow> (int \<times> RawData) list" where
  "leave_frames ts = map (\<lambda>t. (t, Single ''LeaveRoom A'')) ts"

text \<open>The states that the runs above and their continuations end in.\<close>

definition both_joined :: state where
  "both_joined =
     \<lparr> connectionCounts = [(''10.0.0.1'', 1), (''10.0.0.2'', 1)],
       clients = [(''A'', \<lparr>socket = 1, roomId = Some ''r1''\<rparr>),
                  (''B'', \<lparr>socket = 2, roomId = Some ''r1''\<rparr>)],
       rooms = [(''r1'', [''A'', ''B''])],
       roomCodeToId = [(''AB12'', ''r1'')],
       roomIdToCode = [(''r1'', ''AB12'')],
       sent = [Send 1 (SignalingClientId ''A'' [] ''A''),
               Send 1 (SignalingPeerList [] [] [''A''] ''AB12'' ''r1''),
               Send 2 (SignalingClientId ''B'' [] ''B''),
               Send 1 (SignalingPeerList [] [] [''A'', ''B''] ''AB12'' ''r1''),
               Send 2 (SignalingPeerList [] [] [''A'', ''B''] ''AB12'' ''r1'')] \<rparr>"

text \<open>The state after \<open>room_closed\<close>: the room is gone, its code is still mapped.\<close>

definition room_gone :: state where
  "room_gone =
     \<lparr> connectionCounts = [(''10.0.0.1'', 1)],
       clients = [(''A'', \<lparr>socket = 1, roomId = Some ''r1''\<rparr>)],
       rooms = [],
       roomCodeToId = [(''AB12'', ''r1'')],
       roomIdToCode = [(''r1'', ''AB12'')],
       sent = [Send 1 (SignalingClientId ''A'' [] ''A''),
               Send 1 (SignalingPeerList [] [] [''A''] ''AB12'' ''r1'')] \<rparr>"

definition founder_left :: state where
  "founder_left =
     both_joined
       \<lparr> rooms := [(''r1'', [''B''])],
         sent := sent both_joined @ [Send 2 (SignalingPeerList [] [] [''B''] ''AB12'' ''r1'')] \<rparr>"

definition two_rooms :: state where
  "two_rooms =
     \<lparr> connectionCounts = [(''10.0.0.1'', 1), (''10.0.0.2'', 1)],
       clients = [(''A'', \<lparr>socket = 1, roomId = Some ''r1''\<rparr>),
                  (''B'', \<lparr>socket = 2, roomId = Some ''r2''\<rparr>)],
       rooms = [(''r1'', [''A'']), (''r2'', [''B''])],
       roomCodeToId = [(''AB12'', ''r1''), (''ABCD'', ''r2'')],
       roomIdToCode = [(''r1'', ''AB12''), (''r2'', ''ABCD'')],
       sent = sent both_joined @
              [Send 1 (SignalingPeerList [] [] [''A''] ''AB12'' ''r1''),
               Send 2 (SignalingPeerList [] [] [''B''] ''ABCD'' ''r2'')] \<rparr>"

definition joined_twice :: state where
  "joined_twice =
     \<lparr> connectionCounts = [(''10.0.0.1'', 1)],
       clients = [(''A'', \<lparr>socket = 1, roomId = Some ''r1''\<rparr>)],
       rooms = [(''r1'', [''A'', ''A''])],
       roomCodeToId = [(''AB12'', ''r1'')],
       roomIdToCode = [(''r1'', ''AB12'')],
       sent = [Send 1 (SignalingClientId ''A'' [] ''A''),
               Send 1 (SignalingPeerList [] [] [''A''] ''AB12'' ''r1''),
               Send 1 (SignalingPeerList [] [] [''A'', ''A''] ''AB12'' ''r1''),
               Send 1 (SignalingPeerList [] [] [''A'', ''A''] ''AB12'' ''r1'')] \<rparr>"

definition b_left :: state where
  "b_left =
     \<lparr> connectionCounts = [(''10.0.0.1'', 1), (''10.0.0.2'', 1), (''10.0.0.3'', 1)],
       clients = [(''A'', \<lparr>socket = 1, roomId = Some ''r1''\<rparr>),
                  (''B'', \<lparr>socket = 2, roomId = Some ''r1''\<rparr>),
                  (''C'', \<lparr>socket = 3, roomId = Some ''r1''\<rparr>)],
       rooms = [(''r1'', [''A'', ''C''])],
       roomCodeToId = [(''AB12'', ''r1'')],
       roomIdToCode = [(''r1'', ''AB12'')],
       sent = sent both_joined @
              [Send 3 (SignalingClientId ''C'' [] ''C''),
               Send 1 (SignalingPeerList [] [] [''A'', ''B'', ''C''] ''AB12'' ''r1''),
               Send 2 (SignalingPeerList [] [] [''A'', ''B'', ''C''] ''AB12'' ''r1''),
               Send 3 (SignalingPeerList [] [] [''A'', ''B'', ''C''] ''AB12'' ''r1''),
               Send 1 (SignalingPeerList [] [] [''A'', ''C''] ''AB12'' ''r1''),
               Send 3 (SignalingPeerList [] [] [''A'', ''C''] ''AB12'' ''r1'')] \<rparr>"

definition ten_open :: state where
  "ten_open =
     \<lparr> connectionCounts = [(''10.0.0.1'', 10)],
       clients = map (\<lambda>i. (show_nat i, \<lparr>socket = i, roomId = None\<rparr>)) [1..<11],
       rooms = [], roomCodeToId = [], roomIdToCode = [],
       sent = map (\<lambda>i. Send i (SignalingClientId (show_nat i) [] (show_nat i))) [1..<11] \<rparr>"


section \<open>Lemmas about the built-ins and the maps\<close>

lemma indexOf_notin: "x \<notin> set xs \<Longrightarrow> indexOf xs x = - 1"
  by (induction xs) (auto simp: Let_def)

lemma indexOf_range: "x \<in> set xs \<Longrightarrow> 0 \<le> indexOf xs x \<and> indexOf xs x < int (length xs)"
  by (induction xs) (auto simp: Let_def)

lemma splice_js_last: "xs \<noteq> [] \<Longrightarrow> splice_js xs (- 1) 1 = butlast xs"
  by (cases xs rule: rev_cases) (auto simp: splice_js_def Let_def max_def min_def)

lemma set_splice_js: "set (splice_js xs i n) \<subseteq> set xs"
  by (auto simp: splice_js_def Let_def dest: in_set_takeD in_set_dropD)

lemma distinct_splice_js: "distinct xs \<Longrightarrow> distinct (splice_js xs i n)"
proof -
  assume d: "distinct xs"
  define a where
    "a = nat (if i < 0 then max (int (length xs) + i) 0 else min i (int (length xs)))"
  define b where
    "b = nat ((if i < 0 then max (int (length xs) + i) 0 else min i (int (length xs))) +
           min (max n 0) (int (length xs)
             - (if i < 0 then max (int (length xs) + i) 0 else min i (int (length xs)))))"
  have ab: "a \<le> b" unfolding a_def b_def by auto
  have eq: "splice_js xs i n = take a xs @ drop b xs"
    unfolding splice_js_def Let_def a_def b_def by simp
  have "set (take a xs) \<inter> set (drop b xs) = {}"
    using d ab set_take_disj_set_drop_if_distinct by blast
  with d show ?thesis unfolding eq by simp
qed

lemma splice_js_indexOf: "x \<in> set xs \<Longrightarrow> splice_js xs (indexOf xs x) 1 = remove1 x xs"
proof (induction xs)
  case Nil
  then show ?case by simp
next
  case (Cons y ys)
  show ?case
  proof (cases "y = x")
    case True
    then show ?thesis by (simp add: splice_js_def Let_def)
  next
    case False
    with Cons.prems have xin: "x \<in> set ys" by simp
    from indexOf_range [OF xin]
    have r: "0 \<le> indexOf ys x" "indexOf ys x < int (length ys)" by auto
    from Cons.IH [OF xin] r
    have "take (nat (indexOf ys x)) ys @ drop (nat (indexOf ys x + 1)) ys = remove1 x ys"
      by (simp add: splice_js_def Let_def min_def max_def)
    with False r show ?thesis
      by (simp add: splice_js_def Let_def min_def max_def nat_add_distrib)
  qed
qed

text \<open>The callback of \<open>removeClient\<close> removes the first occurrence of the id, if there is one.\<close>

lemma removeFrom_remove1: "removeFrom c room = remove1 c room"
proof (cases "c \<in> set room")
  case True
  with indexOf_range [OF True] show ?thesis
    by (simp add: removeFrom_def Let_def splice_js_indexOf)
next
  case False
  then show ?thesis by (simp add: removeFrom_def Let_def indexOf_notin remove1_idem)
qed

lemma set_removeFrom: "set (removeFrom c room) \<subseteq> set room"
  using set_splice_js [of room] by (auto simp: removeFrom_def Let_def)

lemma distinct_removeFrom: "distinct room \<Longrightarrow> distinct (removeFrom c room)"
  by (simp add: removeFrom_def Let_def distinct_splice_js)

lemma fold_delete_filter:
  "fold AList.delete ks al = filter (\<lambda>p. fst p \<notin> set ks) al"
proof (induction ks arbitrary: al)
  case Nil
  show ?case by simp
next
  case (Cons k ks)
  have "AList.delete k al = filter (\<lambda>p. fst p \<noteq> k) al"
    by (induction al) (auto simp: AList.delete_eq)
  then show ?case using Cons.IH [of "AList.delete k al"]
    by (auto intro: filter_cong)
qed

lemma delete_filter: "AList.delete k al = filter (\<lambda>p. fst p \<noteq> k) al"
  by (induction al) (auto simp: AList.delete_eq)

lemma nonempty_update:
  "list_all (\<lambda>p. snd p \<noteq> []) al \<Longrightarrow> v \<noteq> [] \<Longrightarrow> list_all (\<lambda>p. snd p \<noteq> []) (AList.update k v al)"
  by (induction al) auto

lemma nonempty_filter:
  "list_all (\<lambda>p. snd p \<noteq> []) al \<Longrightarrow> list_all (\<lambda>p. snd p \<noteq> []) (filter P al)"
  by (induction al) auto

lemma nonempty_update_delete:
  "list_all (\<lambda>p. snd p \<noteq> []) al \<Longrightarrow>
   list_all (\<lambda>p. snd p \<noteq> []) (AList.delete k (AList.update k v al))"
  by (simp only: AList.delete_update_same) (simp add: delete_filter nonempty_filter)

lemma rooms_emit [simp]: "rooms (emit es s) = rooms s"
  by (simp add: emit_def)

lemma rooms_broadcast [simp]: "rooms (broadcast m rid s) = rooms s"
  by (simp add: broadcast_def split: option.splits)

lemma rooms_broadcastPeerList [simp]: "rooms (broadcastPeerList rid s) = rooms s"
  by (simp add: broadcastPeerList_def split: option.splits)

lemma rooms_forwardMessage [simp]: "rooms (forwardMessage m s) = rooms s"
  by (simp add: forwardMessage_def split: option.splits)

lemma rooms_setRoomId [simp]: "rooms (setRoomId c cl rid s) = rooms s"
  by (simp add: setRoomId_def)

lemma rooms_onConnection [simp]: "rooms (snd (onConnection sock ip u now s)) = rooms s"
  by (auto simp: onConnection_def checkConnectionCount_def Let_def split: option.splits)

lemma nonempty_createRoom:
  "nonempty_rooms s \<Longrightarrow> nonempty_rooms (createRoom u sid code sock cl s)"
  by (simp add: nonempty_rooms_def createRoom_def addRoom_def Let_def nonempty_update)

lemma nonempty_joinRoomById:
  "nonempty_rooms s \<Longrightarrow> joinRoomById rid cid cl s = Inr s' \<Longrightarrow> nonempty_rooms s'"
  by (auto simp: nonempty_rooms_def joinRoomById_def Let_def nonempty_update split: option.splits)

lemma nonempty_joinRoom:
  "nonempty_rooms s \<Longrightarrow> joinRoom sid code sock cl s = Inr s' \<Longrightarrow> nonempty_rooms s'"
  by (auto simp: joinRoom_def nonempty_rooms_def split: option.splits dest: nonempty_joinRoomById [unfolded nonempty_rooms_def])

lemma nonempty_joinOrCreateRoom:
  "nonempty_rooms s \<Longrightarrow> joinOrCreateRoom drw sid rid cl s = Inr s' \<Longrightarrow> nonempty_rooms s'"
  by (auto simp: joinOrCreateRoom_def nonempty_rooms_def joinRoomById_def addRoom_def Let_def nonempty_update
      split: option.splits if_splits)

lemma nonempty_leaveRoom:
  "nonempty_rooms s \<Longrightarrow> nonempty_rooms (leaveRoom sid cl s)"
  by (auto simp: leaveRoom_def nonempty_rooms_def Let_def nonempty_update nonempty_update_delete
      split: option.splits)

lemma nonempty_scan:
  "list_all (\<lambda>p. snd p \<noteq> [])
     (fold AList.delete (map fst (filter (\<lambda>(rid, room). room = []) al)) al)"
  by (force simp: fold_delete_filter list_all_iff)

lemma nonempty_removeClient: "nonempty_rooms s \<Longrightarrow> nonempty_rooms (removeClient cid ip s)"
  by (cases ip) (simp_all add: removeClient_def nonempty_rooms_def Let_def nonempty_scan)

lemma nonempty_emit [simp]: "nonempty_rooms (emit es s) = nonempty_rooms s"
  by (simp add: nonempty_rooms_def)

lemma nonempty_forwardMessage [simp]: "nonempty_rooms (forwardMessage m s) = nonempty_rooms s"
  by (simp add: nonempty_rooms_def)

lemma nonempty_onConnection [simp]:
  "nonempty_rooms (snd (onConnection sock ip u now s)) = nonempty_rooms s"
  by (simp add: nonempty_rooms_def)

lemma nonempty_handleMessage:
  assumes "nonempty_rooms s" and "handleMessage rnd m sock s = Inr s'"
  shows "nonempty_rooms s'"
proof (cases "map_of (clients s) (msg_senderId m)")
  case None
  with assms show ?thesis by (simp add: handleMessage_def)
next
  case (Some sender)
  with assms show ?thesis
    by (cases m)
       (auto simp: handleMessage_def 
             intro: nonempty_createRoom nonempty_leaveRoom
             dest: nonempty_joinRoom nonempty_joinOrCreateRoom)
qed

lemma nonempty_step:
  "nonempty_rooms s \<Longrightarrow> step e s = Inr s' \<Longrightarrow> nonempty_rooms s'"
  by (cases e) (auto dest: nonempty_handleMessage intro: nonempty_removeClient)

lemma nonempty_run:
  "nonempty_rooms s \<Longrightarrow> run es s = Inr s' \<Longrightarrow> nonempty_rooms s'"
  by (induction es arbitrary: s) (auto split: sum.splits dest: nonempty_step)

lemma set_concat_update:
  "set (concat (map snd (AList.update k v al))) \<subseteq> set v \<union> set (concat (map snd al))"
  by (induction al) auto

lemma map_of_in_concat:
  "map_of al k = Some w \<Longrightarrow> set w \<subseteq> set (concat (map snd al))"
  by (induction al) (auto split: if_splits)

lemma distinct_concat_update:
  assumes "distinct (concat (map snd al))" and "distinct v"
    and "set v \<inter> set (concat (map snd al)) \<subseteq> (case map_of al k of None \<Rightarrow> {} | Some w \<Rightarrow> set w)"
  shows "distinct (concat (map snd (AList.update k v al)))"
  using assms
proof (induction al)
  case Nil
  then show ?case by simp
next
  case (Cons p al)
  show ?case
  proof (cases "fst p = k")
    case True
    with Cons.prems show ?thesis by (cases p) auto
  next
    case False
    from Cons.prems False have d: "distinct (concat (map snd al))" and dp: "distinct (snd p)"
      and disj: "set (snd p) \<inter> set (concat (map snd al)) = {}"
      and sub: "set v \<inter> (set (snd p) \<union> set (concat (map snd al)))
                 \<subseteq> (case map_of al k of None \<Rightarrow> {} | Some w \<Rightarrow> set w)"
      by (cases p; auto)+
    have inner: "(case map_of al k of None \<Rightarrow> {} | Some w \<Rightarrow> set w) \<subseteq> set (concat (map snd al))"
      using map_of_in_concat [of al k] by (auto split: option.splits)
    from sub have "set v \<inter> set (concat (map snd al))
                 \<subseteq> (case map_of al k of None \<Rightarrow> {} | Some w \<Rightarrow> set w)" by blast
    with Cons.IH d Cons.prems(2)
    have ih: "distinct (concat (map snd (AList.update k v al)))" by blast
    have "set (snd p) \<inter> set v = {}" using sub inner disj by blast
    with disj set_concat_update [of k v al]
    have "set (snd p) \<inter> set (concat (map snd (AList.update k v al))) = {}" by blast
    with ih dp False show ?thesis by simp
  qed
qed

lemma distinct_concat_filter:
  "distinct (concat (map snd al)) \<Longrightarrow> distinct (concat (map snd (filter P al)))"
  by (induction al) auto

lemma set_concat_scan:
  "set (concat (map snd (map (\<lambda>(rid, room). (rid, removeFrom c room)) al)))
     \<subseteq> set (concat (map snd al))"
proof (induction al)
  case Nil
  show ?case by simp
next
  case (Cons p al)
  obtain rid room where p: "p = (rid, room)" by (cases p)
  from Cons.IH set_removeFrom [of c room] show ?case unfolding p by auto
qed

lemma distinct_concat_scan:
  "distinct (concat (map snd al)) \<Longrightarrow>
   distinct (concat (map snd (map (\<lambda>(rid, room). (rid, removeFrom c room)) al)))"
proof (induction al)
  case Nil
  show ?case by simp
next
  case (Cons p al)
  obtain rid room where p: "p = (rid, room)" by (cases p)
  from Cons.prems p have "set room \<inter> set (concat (map snd al)) = {}" by auto
  with set_concat_scan [of c al] set_removeFrom [of c room]
  have "set (removeFrom c room)
          \<inter> set (concat (map snd (map (\<lambda>(rid, room). (rid, removeFrom c room)) al))) = {}"
    by blast
  with Cons p show ?case by (simp add: distinct_removeFrom)
qed

lemma members_emit [simp]: "members (emit es s) = members s"
  by (simp add: members_def)

lemma unique_emit [simp]: "unique_members (emit es s) = unique_members s"
  by (simp add: unique_members_def)

lemma unique_forwardMessage [simp]: "unique_members (forwardMessage m s) = unique_members s"
  by (simp add: unique_members_def members_def)

lemma unique_onConnection [simp]:
  "unique_members (snd (onConnection sock ip u now s)) = unique_members s"
  by (simp add: unique_members_def members_def)

lemma unique_update:
  assumes "unique_members s" and "distinct v"
    and "set v \<inter> set (members s) \<subseteq> (case map_of (rooms s) k of None \<Rightarrow> {} | Some w \<Rightarrow> set w)"
    and "rooms s' = AList.update k v (rooms s)"
  shows "unique_members s'"
  using assms distinct_concat_update [of "rooms s" v k]
  by (simp add: unique_members_def members_def AList.distinct_update)

lemma unique_createRoom:
  assumes "unique_members s" and "sid \<notin> set (members s)"
  shows "unique_members (createRoom u sid code sock cl s)"
proof (cases "map_of (roomCodeToId s) code \<noteq> None")
  case True
  with assms show ?thesis by (simp add: createRoom_def)
next
  case False
  have r: "rooms (createRoom u sid code sock cl s) = AList.update u [sid] (rooms s)"
    using False by (simp add: createRoom_def addRoom_def Let_def)
  have d: "distinct [sid]" by simp
  have i: "set [sid] \<inter> set (members s)
      \<subseteq> (case map_of (rooms s) u of None \<Rightarrow> {} | Some w \<Rightarrow> set w)"
    using assms(2) by simp
  show ?thesis by (rule unique_update [OF assms(1) d i r])
qed

lemma unique_joinRoomById:
  assumes "unique_members s" and "cid \<notin> set (members s)"
    and "joinRoomById rid cid cl s = Inr s'"
  shows "unique_members s'"
proof -
  from assms(3) obtain peers where p: "map_of (rooms s) rid = Some peers"
    and r: "rooms s' = AList.update rid (peers @ [cid]) (rooms s)"
    by (auto simp: joinRoomById_def Let_def split: option.splits)
  from p have sub: "set peers \<subseteq> set (members s)"
    unfolding members_def by (rule map_of_in_concat)
  from p assms(1) have "distinct peers"
    by (auto simp: unique_members_def members_def dest!: map_of_SomeD split_list)
  with assms(2) sub have d: "distinct (peers @ [cid])" by auto
  have i: "set (peers @ [cid]) \<inter> set (members s)
      \<subseteq> (case map_of (rooms s) rid of None \<Rightarrow> {} | Some w \<Rightarrow> set w)"
    using p assms(2) by auto
  show ?thesis by (rule unique_update [OF assms(1) d i r])
qed

lemma unique_joinRoom:
  "unique_members s \<Longrightarrow> sid \<notin> set (members s) \<Longrightarrow> joinRoom sid code sock cl s = Inr s'
     \<Longrightarrow> unique_members s'"
  by (auto simp: joinRoom_def split: option.splits dest: unique_joinRoomById)

lemma unique_joinOrCreateRoom:
  assumes "unique_members s" and "sid \<notin> set (members s)"
    and "joinOrCreateRoom drw sid rid cl s = Inr s'"
  shows "unique_members s'"
proof (cases "map_of (rooms s) rid = None")
  case False
  with assms show ?thesis by (auto simp: joinOrCreateRoom_def dest: unique_joinRoomById)
next
  case True
  define s1 where "s1 = addRoom rid (generateRoomCode drw) [] s"
  have r1: "rooms s1 = AList.update rid [] (rooms s)" by (simp add: s1_def addRoom_def)
  have u1: "unique_members s1"
    by (rule unique_update [OF assms(1) _ _ r1]) simp_all
  have "set (members s1) \<subseteq> set (members s)"
    using set_concat_update [of rid "[]" "rooms s"] by (simp add: members_def r1)
  with assms(2) have "sid \<notin> set (members s1)" by blast
  moreover from assms(3) True have "joinRoomById rid sid cl s1 = Inr s'"
    by (simp add: joinOrCreateRoom_def s1_def)
  ultimately show ?thesis using u1 by (blast dest: unique_joinRoomById)
qed

lemma unique_delete:
  "unique_members s \<Longrightarrow> rooms s' = AList.delete k (rooms s) \<Longrightarrow> unique_members s'"
  by (simp add: unique_members_def members_def AList.distinct_delete)
     (simp add: delete_filter distinct_concat_filter)

lemma unique_leaveRoom:
  assumes "unique_members s"
  shows "unique_members (leaveRoom sid cl s)"
proof (cases "roomId cl")
  case None
  with assms show ?thesis by (simp add: leaveRoom_def)
next
  case (Some roomCode)
  show ?thesis
  proof (cases "map_of (rooms s) roomCode")
    case None
    with Some assms show ?thesis by (simp add: leaveRoom_def)
  next
    case (Some room)
    define room' where "room' = splice_js room (indexOf room sid) 1"
    define s1 where "s1 = s\<lparr>rooms := AList.update roomCode room' (rooms s)\<rparr>"
    from Some assms have "distinct room"
      by (auto simp: unique_members_def members_def dest!: map_of_SomeD split_list)
    then have d: "distinct room'" by (simp add: room'_def distinct_splice_js)
    have "set room' \<subseteq> set room" by (simp add: room'_def set_splice_js)
    then have "set room' \<inter> set (members s)
        \<subseteq> (case map_of (rooms s) roomCode of None \<Rightarrow> {} | Some w \<Rightarrow> set w)"
      using Some by auto
    then have u1: "unique_members s1"
      by (rule unique_update [OF assms d]) (simp add: s1_def)
    have "leaveRoom sid cl s =
        (if length room' = 0 then s1\<lparr>rooms := AList.delete roomCode (rooms s1)\<rparr>
         else broadcastPeerList roomCode s1)"
      using Some \<open>roomId cl = Some roomCode\<close> by (simp add: leaveRoom_def Let_def room'_def s1_def)
    moreover have "unique_members (s1\<lparr>rooms := AList.delete roomCode (rooms s1)\<rparr>)"
      using u1 by (rule unique_delete) simp
    moreover have "unique_members (broadcastPeerList roomCode s1)"
      using u1 by (simp add: unique_members_def members_def)
    ultimately show ?thesis by simp
  qed
qed

lemma unique_removeClient:
  assumes "unique_members s"
  shows "unique_members (removeClient cid ip s)"
proof (cases ip)
  case None
  with assms show ?thesis by (simp add: removeClient_def)
next
  case (Some a)
  define scanned where "scanned = map (\<lambda>(rid, room). (rid, removeFrom cid room)) (rooms s)"
  have keys: "map fst scanned = map fst (rooms s)"
    by (simp add: scanned_def case_prod_beta comp_def)
  have "distinct (concat (map snd scanned))"
    using assms unfolding scanned_def unique_members_def members_def
    by (blast intro: distinct_concat_scan)
  moreover have "distinct (map fst scanned)"
    using assms by (simp add: keys unique_members_def)
  moreover have "rooms (removeClient cid ip s) =
      filter (\<lambda>p. fst p \<notin> set (map fst (filter (\<lambda>(rid, room). length room = 0) scanned))) scanned"
    using Some by (simp add: removeClient_def Let_def scanned_def fold_delete_filter)
  ultimately show ?thesis
    by (simp add: unique_members_def members_def distinct_concat_filter distinct_map_filter)
qed

lemma unique_handleMessage:
  assumes "unique_members s" and "joins_fresh (Message rnd m sock) s"
    and "handleMessage rnd m sock s = Inr s'"
  shows "unique_members s'"
proof (cases "map_of (clients s) (msg_senderId m)")
  case None
  with assms show ?thesis by (simp add: handleMessage_def)
next
  case (Some sender)
  with assms show ?thesis
    by (cases m)
       (auto simp: handleMessage_def
             intro: unique_createRoom unique_leaveRoom
             dest: unique_joinRoom unique_joinOrCreateRoom)
qed

lemma unique_step:
  "unique_members s \<Longrightarrow> joins_fresh e s \<Longrightarrow> step e s = Inr s' \<Longrightarrow> unique_members s'"
  by (cases e) (auto dest: unique_handleMessage intro: unique_removeClient simp del: joins_fresh.simps)

lemma unique_run:
  "unique_members s \<Longrightarrow> fresh_run es s \<Longrightarrow> run es s = Inr s' \<Longrightarrow> unique_members s'"
  by (induction es arbitrary: s) (auto split: sum.splits dest: unique_step)

lemmas fromContent_defs =
  SignalingOffer_fromContent_def SignalingAnswer_fromContent_def
  SignalingIceCandidate_fromContent_def SignalingClientId_fromContent_def
  SignalingPeerList_fromContent_def SignalingCreateRoom_fromContent_def
  SignalingJoinRoom_fromContent_def SignalingJoinOrCreateRoom_fromContent_def
  SignalingLeaveRoom_fromContent_def SignalingError_fromContent_def


section \<open>Peer-list broadcasts on disconnect\<close>

text \<open>\<open>removeClient\<close> sends nothing, in any state.\<close>

lemma removeClient_sends_nothing: "sent (removeClient clientId ip s) = sent s"
  by (cases ip) (simp_all add: removeClient_def Let_def)

text \<open>
  C1. The claim: when a member disconnects and its room stays non-empty, \<open>removeClient\<close>
  removes the id and sends a peer list with the surviving members to every survivor, as a
  join or a leave does. The code at this input: \<open>A\<close> creates a room, \<open>B\<close> joins (both get
  the peer list \<open>[A, B]\<close>), and \<open>B\<close> disconnects. \<open>removeClient\<close> drops \<open>B\<close> from the
  registry and from the room, and the trace \<open>sent\<close> stays as it was: \<open>A\<close> gets no peer list
  \<open>[A]\<close>. In the same state \<open>leaveRoom\<close> for \<open>B\<close> does send that peer list to \<open>A\<close>.
\<close>

theorem disconnect_sends_no_peer_list:
  "run two_members initial = Inr both_joined
   \<and> removeClient ''B'' (Some ''10.0.0.2'') both_joined =
       both_joined \<lparr> connectionCounts := [(''10.0.0.1'', 1)],
                     clients := [(''A'', \<lparr>socket = 1, roomId = Some ''r1''\<rparr>)],
                     rooms := [(''r1'', [''A''])] \<rparr>
   \<and> leaveRoom ''B'' \<lparr>socket = 2, roomId = Some ''r1''\<rparr> both_joined =
       both_joined \<lparr> rooms := [(''r1'', [''A''])],
                     sent := sent both_joined
                       @ [Send 1 (SignalingPeerList [] [] [''A''] ''AB12'' ''r1'')] \<rparr>"
  by code_simp


section \<open>The code of a deleted room\<close>

text \<open>Neither \<open>leaveRoom\<close> nor \<open>removeClient\<close> changes the two code maps, in any state.\<close>

lemma leaveRoom_keeps_code_maps:
  "roomCodeToId (leaveRoom senderId client s) = roomCodeToId s
   \<and> roomIdToCode (leaveRoom senderId client s) = roomIdToCode s"
  by (simp add: leaveRoom_def Let_def broadcastPeerList_def broadcast_def emit_def
        split: option.splits)

lemma removeClient_keeps_code_maps:
  "roomCodeToId (removeClient clientId ip s) = roomCodeToId s
   \<and> roomIdToCode (removeClient clientId ip s) = roomIdToCode s"
  by (cases ip) (simp_all add: removeClient_def Let_def)

text \<open>
  C2. The claim: when the last member of a room leaves or disconnects, both directions of
  the room's code mapping go, so that the code can be used for a new room. The code at
  this input: \<open>A\<close> creates the room \<open>AB12\<close> and leaves it. The room is deleted from \<open>rooms\<close>,
  and \<open>roomCodeToId\<close> and \<open>roomIdToCode\<close> keep their entries: a second \<open>CreateRoom\<close> with
  \<open>AB12\<close> is answered by the error message, and a \<open>JoinRoom\<close> with \<open>AB12\<close> throws in
  \<open>joinRoomById\<close>. The same holds when the room is deleted by the founder's disconnect.
\<close>

theorem deleted_room_keeps_its_code:
  "run (room_closed @ [Message rnd2 (SignalingCreateRoom ''A'' ''AB12'') 1]) initial =
     Inr \<lparr> connectionCounts = [(''10.0.0.1'', 1)],
           clients = [(''A'', \<lparr>socket = 1, roomId = Some ''r1''\<rparr>)],
           rooms = [],
           roomCodeToId = [(''AB12'', ''r1'')],
           roomIdToCode = [(''r1'', ''AB12'')],
           sent = [Send 1 (SignalingClientId ''A'' [] ''A''),
                   Send 1 (SignalingPeerList [] [] [''A''] ''AB12'' ''r1''),
                   Send 1 (SignalingError ''A'' ''Room AB12 already exists.'')] \<rparr>
   \<and> run (room_closed @ [Message rnd2 (SignalingJoinRoom ''A'' ''AB12'') 1]) initial
       = Inl TypeError
   \<and> run [Connect 1 (Some ''10.0.0.1'') ''A'' 0,
           Message rnd1 (SignalingCreateRoom ''A'' ''AB12'') 1,
           Disconnect ''A'' (Some ''10.0.0.1''),
           Connect 2 (Some ''10.0.0.2'') ''B'' 5,
           Message rnd2 (SignalingCreateRoom ''B'' ''AB12'') 2] initial =
     Inr \<lparr> connectionCounts = [(''10.0.0.2'', 1)],
           clients = [(''B'', \<lparr>socket = 2, roomId = None\<rparr>)],
           rooms = [],
           roomCodeToId = [(''AB12'', ''r1'')],
           roomIdToCode = [(''r1'', ''AB12'')],
           sent = [Send 1 (SignalingClientId ''A'' [] ''A''),
                   Send 1 (SignalingPeerList [] [] [''A''] ''AB12'' ''r1''),
                   Send 2 (SignalingClientId ''B'' [] ''B''),
                   Send 2 (SignalingError ''B'' ''Room AB12 already exists.'')] \<rparr>"
  by code_simp


section \<open>Each connection in at most one member list\<close>

text \<open>
  C3, as amended. \<open>createRoom\<close> and \<open>joinRoomById\<close> add the sender to a member list
  without looking for it in any list. In every state reached from the initial state by a
  run of connect, message and disconnect events in which the sender of each \<open>CreateRoom\<close>,
  \<open>JoinRoom\<close> and \<open>JoinOrCreate\<close> message is in no member list when the message is
  handled, every connection id occurs at most once in all member lists: no list has a
  duplicate and no id is in the lists of two rooms.
\<close>

theorem unique_members_when_joiners_fresh:
  "fresh_run es initial \<Longrightarrow> run es initial = Inr s \<Longrightarrow>
     distinct (map fst (rooms s)) \<and> distinct (members s)"
proof -
  assume f: "fresh_run es initial" and r: "run es initial = Inr s"
  have "unique_members initial" by (simp add: unique_members_def members_def initial_def)
  from unique_run [OF this f r] show ?thesis by (simp add: unique_members_def)
qed

text \<open>
  C3, witness: \<open>A\<close> creates a room, \<open>B\<close> joins it, leaves it and opens a room of its own
  by \<open>JoinOrCreate\<close>.
\<close>

theorem unique_members_when_joiners_fresh_witness:
  "fresh_run (two_members @ [Message rnd1 (SignalingLeaveRoom ''B'') 2,
                             Message rnd2 (SignalingJoinOrCreateRoom ''B'' ''r2'') 2]) initial
   \<and> run (two_members @ [Message rnd1 (SignalingLeaveRoom ''B'') 2,
                          Message rnd2 (SignalingJoinOrCreateRoom ''B'' ''r2'') 2]) initial
       = Inr two_rooms
   \<and> distinct (map fst (rooms two_rooms)) \<and> distinct (members two_rooms)
   \<and> members two_rooms = [''A'', ''B'']"
proof -
  have f: "fresh_run (two_members @ [Message rnd1 (SignalingLeaveRoom ''B'') 2,
                        Message rnd2 (SignalingJoinOrCreateRoom ''B'' ''r2'') 2]) initial"
    by code_simp
  have r: "run (two_members @ [Message rnd1 (SignalingLeaveRoom ''B'') 2,
                  Message rnd2 (SignalingJoinOrCreateRoom ''B'' ''r2'') 2]) initial
             = Inr two_rooms"
    by code_simp
  have m: "members two_rooms = [''A'', ''B'']" by code_simp
  from unique_members_when_joiners_fresh [OF f r] f r m show ?thesis by simp
qed

text \<open>
  C3, counterexample to the claim as stated: \<open>A\<close> creates the room \<open>AB12\<close> and then sends
  \<open>JoinRoom\<close> for it. The member list of the room is \<open>[A, A]\<close>.
\<close>

theorem rejoin_duplicates_member_counterexample:
  "run [Connect 1 (Some ''10.0.0.1'') ''A'' 0,
        Message rnd1 (SignalingCreateRoom ''A'' ''AB12'') 1,
        Message rnd1 (SignalingJoinRoom ''A'' ''AB12'') 1] initial = Inr joined_twice
   \<and> map_of (rooms joined_twice) ''r1'' = Some [''A'', ''A'']
   \<and> \<not> distinct (members joined_twice)"
  by code_simp


section \<open>The rate gate\<close>

lemma leave_frame_parsed:
  "parseMessage leave_parse (Single ''LeaveRoom A'') = Inr [SignalingLeaveRoom ''A'']"
  by (simp add: parseMessage_def fromBuffer_def fromJson_def leave_parse_def toContent_def
        base_toContent_def SignalingLeaveRoom_fromContent_def)

lemma leave_frame_handled:
  "handleMessage r (SignalingLeaveRoom ''A'') sock after_admission = Inr after_admission"
  by (simp add: handleMessage_def leaveRoom_def after_admission_def)

lemma onMessage_leave_frame:
  "onMessage leave_parse rnd now (Single ''LeaveRoom A'') (c, after_admission) =
     (if now > resetAt c
      then Inr (c\<lparr>messageCount := 1, resetAt := now\<rparr>, after_admission)
      else if messageCount c > 20
      then Inr (c, after_admission\<lparr>sent := sent after_admission
                     @ [Close (conn_socket c) 4030 ''Rate limit exceeded.'']\<rparr>)
      else Inr (c\<lparr>messageCount := messageCount c + 1\<rparr>, after_admission))"
  by (simp add: onMessage_def Let_def checkMessageSize_def byteLength_def emit_def
        leave_frame_parsed leave_frame_handled)

text \<open>
  C4. The claim: more than \<open>MaxMessagesPerSeconds\<close> (20) frames within one one-second
  window close the connection, and a reset opens a fresh one-second window. The code at
  this input: the connection is admitted at time \<open>0\<close> (\<open>resetAt = 1000\<close>); 22 frames
  arrive at the times \<open>1001, ..., 1022\<close>. Each frame finds \<open>now > resetAt\<close>, since the reset
  stores \<open>now\<close> and not \<open>now + 1000\<close>, so the counter restarts at every frame and nothing
  is closed. Inside the first window the 21 frames at the times \<open>1, ..., 21\<close> are all
  handled, and it is the 22nd frame that closes the connection.
\<close>

theorem rate_gate_runs:
  "onConnection 1 (Some ''10.0.0.1'') ''A'' 0 initial = (Some admitted, after_admission)
   \<and> onMessages leave_parse (\<lambda>i. rnd1) (leave_frames [1001..1022]) (admitted, after_admission)
       = Inr (admitted\<lparr>messageCount := 1, resetAt := 1022\<rparr>, after_admission)
   \<and> onMessages leave_parse (\<lambda>i. rnd1) (leave_frames [1..21]) (admitted, after_admission)
       = Inr (admitted\<lparr>messageCount := 21\<rparr>, after_admission)
   \<and> onMessages leave_parse (\<lambda>i. rnd1) (leave_frames [1..22]) (admitted, after_admission)
       = Inr (admitted\<lparr>messageCount := 21\<rparr>,
              after_admission\<lparr>sent := sent after_admission
                                    @ [Close 1 4030 ''Rate limit exceeded.'']\<rparr>)"
proof -
  have a: "onConnection 1 (Some ''10.0.0.1'') ''A'' 0 initial = (Some admitted, after_admission)"
    by code_simp
  have b: "onMessages leave_parse (\<lambda>i. rnd1) (leave_frames [1001..1022]) (admitted, after_admission)
       = Inr (admitted\<lparr>messageCount := 1, resetAt := 1022\<rparr>, after_admission)"
    by (simp add: leave_frames_def onMessage_leave_frame admitted_def upto.simps)
  have c: "onMessages leave_parse (\<lambda>i. rnd1) (leave_frames [1..21]) (admitted, after_admission)
       = Inr (admitted\<lparr>messageCount := 21\<rparr>, after_admission)"
    by (simp add: leave_frames_def onMessage_leave_frame admitted_def upto.simps)
  have d: "onMessages leave_parse (\<lambda>i. rnd1) (leave_frames [1..22]) (admitted, after_admission)
       = Inr (admitted\<lparr>messageCount := 21\<rparr>,
              after_admission\<lparr>sent := sent after_admission
                                    @ [Close 1 4030 ''Rate limit exceeded.'']\<rparr>)"
    by (simp add: leave_frames_def onMessage_leave_frame admitted_def upto.simps)
  from a b c d show ?thesis by simp
qed


section \<open>The connection count of an address\<close>

text \<open>An address with a count of \<open>MaxConnectionsPerIp\<close> is admitted once more, in any state.\<close>

lemma full_address_admitted:
  "map_of (connectionCounts s) ip = Some MaxConnectionsPerIp \<Longrightarrow>
     checkConnectionCount sock (Some ip) s =
       (True, s\<lparr>connectionCounts :=
                   AList.update ip (MaxConnectionsPerIp + 1) (connectionCounts s)\<rparr>)"
  by (simp add: checkConnectionCount_def)

text \<open>
  C5. The claim: a connection attempt from an address that has \<open>MaxConnectionsPerIp\<close> (10)
  connections open is refused and the count stays. The code at this input: ten
  connections from one address are open (the count is 10); the eleventh attempt finds
  \<open>count > 10\<close> false, is admitted, and the count becomes 11. It is the twelfth attempt
  that is refused.
\<close>

theorem eleventh_connection_admitted:
  "run ten_connects initial = Inr ten_open
   \<and> map_of (connectionCounts ten_open) ''10.0.0.1'' = Some 10
   \<and> onConnection 11 (Some ''10.0.0.1'') ''11'' 0 ten_open =
       (Some \<lparr> conn_socket = 11, conn_remoteAddress = Some ''10.0.0.1'',
                conn_clientId = ''11'', messageCount = 0, resetAt = 1000 \<rparr>,
        ten_open \<lparr> connectionCounts := [(''10.0.0.1'', 11)],
                   clients := clients ten_open @ [(''11'', \<lparr>socket = 11, roomId = None\<rparr>)],
                   sent := sent ten_open @ [Send 11 (SignalingClientId ''11'' [] ''11'')] \<rparr>)
   \<and> fst (onConnection 12 (Some ''10.0.0.1'') ''12'' 0
             (snd (onConnection 11 (Some ''10.0.0.1'') ''11'' 0 ten_open))) = None"
  by code_simp


section \<open>Application errors\<close>

text \<open>
  Where the test on \<open>roomCodeToId\<close> decides, the error is a message and nothing else:
  \<open>createRoom\<close> with a code that \<open>roomCodeToId\<close> holds, and \<open>joinRoom\<close> with a code that
  it does not hold, send one \<open>Error\<close> message, addressed to the sender, on the socket the
  request came from; the socket is not closed, and no room, mapping or registry entry
  changes.
\<close>

lemma error_replies_leave_state:
  "(map_of (roomCodeToId s) known \<noteq> None \<longrightarrow>
      createRoom randomUUID senderId known sock client s
        = s\<lparr>sent := sent s
               @ [Send sock (SignalingError senderId (''Room '' @ known @ '' already exists.''))]\<rparr>)
   \<and> (map_of (roomCodeToId s) unknown = None \<longrightarrow>
      joinRoom senderId unknown sock client s
        = Inr (s\<lparr>sent := sent s
               @ [Send sock (SignalingError senderId (''Room '' @ unknown @ '' does not exist.''))]\<rparr>))"
  by (simp add: createRoom_def joinRoom_def emit_def roomAlreadyExists_def roomNotFound_def)

text \<open>
  C6. The claim: in every state, \<open>joinRoom\<close> with a code that maps to no room sends a
  \<open>RoomNotFound\<close> error to the sender, keeps the connection open and changes no state. The
  code at this input: \<open>A\<close> creates the room \<open>AB12\<close> and leaves it, so that no room is left
  and \<open>roomCodeToId\<close> still maps \<open>AB12\<close> to the id of the deleted room. A \<open>JoinRoom\<close> with
  \<open>AB12\<close> passes the test of \<open>joinRoom\<close>, and \<open>joinRoomById\<close> throws on the missing member
  list: no error message is sent, and the exception leaves \<open>handleMessage\<close>.
\<close>

theorem stale_code_join_throws:
  "run room_closed initial = Inr room_gone
   \<and> map_of (roomCodeToId room_gone) ''AB12'' = Some ''r1''
   \<and> map_of (rooms room_gone) ''r1'' = None
   \<and> joinRoom ''A'' ''AB12'' 1 \<lparr>socket = 1, roomId = Some ''r1''\<rparr> room_gone = Inl TypeError
   \<and> handleMessage rnd2 (SignalingJoinRoom ''A'' ''AB12'') 1 room_gone = Inl TypeError"
  by code_simp


section \<open>No room without members\<close>

lemma map_of_filter_deleted:
  "k \<in> set ks \<Longrightarrow> map_of (filter (\<lambda>p. fst p \<notin> set ks) al) k = None"
  by (induction al) auto

lemma leaveRoom_deletes_emptied_room:
  assumes "roomId client = Some rid" and "map_of (rooms t) rid = Some [member]"
  shows "map_of (rooms (leaveRoom senderId client t)) rid = None"
proof -
  have "splice_js [member] (indexOf [member] senderId) 1 = []"
    by (simp add: splice_js_def Let_def)
  with assms show ?thesis
    by (simp add: leaveRoom_def Let_def AList.delete_conv')
qed

lemma removeClient_deletes_emptied_room:
  assumes "map_of (rooms t) rid = Some [clientId]"
  shows "map_of (rooms (removeClient clientId (Some ip) t)) rid = None"
proof -
  define scanned where
    "scanned = map (\<lambda>(rid, room). (rid, removeFrom clientId room)) (rooms t)"
  from assms have "(rid, [clientId]) \<in> set (rooms t)" by (rule map_of_SomeD)
  then have "(rid, removeFrom clientId [clientId]) \<in> set scanned"
    unfolding scanned_def by force
  then have "(rid, []) \<in> set scanned" by (simp add: removeFrom_remove1)
  then have "rid \<in> set (map fst (filter (\<lambda>(rid, room). room = []) scanned))" by force
  then have "map_of (fold AList.delete (map fst (filter (\<lambda>(rid, room). room = []) scanned))
                       scanned) rid = None"
    unfolding fold_delete_filter by (rule map_of_filter_deleted)
  then show ?thesis by (simp add: removeClient_def Let_def scanned_def)
qed

text \<open>
  C7. In every state reached from the initial state by a run of connect, message
  (create, join, join-or-create, leave, relay) and disconnect events, every room in
  \<open>rooms\<close> has a non-empty member list. And a removal that empties a member list deletes
  the room in the same operation, in any state: when the room of the sender's
  \<open>ClientInfo\<close> has one member, \<open>leaveRoom\<close> leaves no room under that id, and when a room
  has the closing client as its one member, \<open>removeClient\<close> leaves no room under that id.
\<close>

theorem rooms_never_empty:
  "(run es initial = Inr s \<longrightarrow> list_all (\<lambda>(rid, room). room \<noteq> []) (rooms s))
   \<and> (roomId client = Some rid \<and> map_of (rooms t) rid = Some [member] \<longrightarrow>
        map_of (rooms (leaveRoom senderId client t)) rid = None)
   \<and> (map_of (rooms t) rid = Some [clientId] \<longrightarrow>
        map_of (rooms (removeClient clientId (Some ip) t)) rid = None)"
proof -
  have "nonempty_rooms initial" by (simp add: nonempty_rooms_def initial_def)
  then have "run es initial = Inr s \<longrightarrow> list_all (\<lambda>(rid, room). room \<noteq> []) (rooms s)"
    using nonempty_run [of initial es s] by (simp add: nonempty_rooms_def case_prod_unfold)
  then show ?thesis
    using leaveRoom_deletes_emptied_room [of client rid t member senderId]
      removeClient_deletes_emptied_room [of t rid clientId ip]
    by blast
qed

text \<open>
  C7, witness: \<open>A\<close> creates a room, \<open>B\<close> joins it, \<open>A\<close> leaves. The room has the one
  member \<open>B\<close>; it is deleted when \<open>B\<close> leaves, and when \<open>B\<close> disconnects.
\<close>

theorem rooms_never_empty_witness:
  "run (two_members @ [Message rnd1 (SignalingLeaveRoom ''A'') 1]) initial = Inr founder_left
   \<and> list_all (\<lambda>(rid, room). room \<noteq> []) (rooms founder_left)
   \<and> map_of (rooms founder_left) ''r1'' = Some [''B'']
   \<and> map_of (rooms (leaveRoom ''B'' \<lparr>socket = 2, roomId = Some ''r1''\<rparr> founder_left)) ''r1''
       = None
   \<and> map_of (rooms (removeClient ''B'' (Some ''10.0.0.2'') founder_left)) ''r1'' = None"
proof -
  have r: "run (two_members @ [Message rnd1 (SignalingLeaveRoom ''A'') 1]) initial
             = Inr founder_left"
    by code_simp
  have m: "map_of (rooms founder_left) ''r1'' = Some [''B'']" by code_simp
  from rooms_never_empty
         [of "two_members @ [Message rnd1 (SignalingLeaveRoom ''A'') 1]" founder_left
             "\<lparr>socket = 2, roomId = Some ''r1''\<rparr>" "''r1''" founder_left "''B''" "''B''"
             "''B''" "''10.0.0.2''"]
       r m
  show ?thesis by simp
qed


section \<open>The round trip of the codec\<close>

text \<open>
  C8. For every message of every class whose payload is present: if the runtime's
  \<open>JSON.parse\<close> gives back the content object that \<open>JSON.stringify\<close> was given, then
  \<open>fromJson\<close> of \<open>toJson\<close> of the message is the message, equal in \<open>type\<close>, \<open>targetId\<close>,
  \<open>senderId\<close> and every field of its class.
\<close>

theorem encode_decode_roundtrip:
  assumes "JSON_parse (JSON_stringify (toContent m)) = Some (toContent m)"
    and "payload_present m"
  shows "fromJson JSON_parse (toJson JSON_stringify m) = Inr m"
proof -
  have "fromJson Some (toContent m) = Inr m"
    using assms(2)
    by (cases m)
       (simp_all add: fromJson_def toContent_def base_toContent_def fromContent_defs
                 split: json.splits)
  with assms(1) show ?thesis by (simp add: fromJson_def toJson_def)
qed

text \<open>
  C8, witness: an offer, a peer list, a create-room request and an error, with the wire
  text taken to be the content object itself.
\<close>

theorem encode_decode_roundtrip_witness:
  "fromJson Some (toJson (\<lambda>c. c)
      (SignalingOffer ''B'' ''A'' (JObj [(''type'', JStr ''offer''), (''sdp'', JStr ''v=0'')])))
     = Inr (SignalingOffer ''B'' ''A'' (JObj [(''type'', JStr ''offer''), (''sdp'', JStr ''v=0'')]))
   \<and> fromJson Some (toJson (\<lambda>c. c) (SignalingPeerList [] [] [''A'', ''B''] ''AB12'' ''r1''))
     = Inr (SignalingPeerList [] [] [''A'', ''B''] ''AB12'' ''r1'')
   \<and> fromJson Some (toJson (\<lambda>c. c) (SignalingCreateRoom ''A'' ''AB12''))
     = Inr (SignalingCreateRoom ''A'' ''AB12'')
   \<and> fromJson Some (toJson (\<lambda>c. c) (SignalingError ''A'' ''Room AB12 does not exist.''))
     = Inr (SignalingError ''A'' ''Room AB12 does not exist.'')"
  using
    encode_decode_roundtrip [of Some "\<lambda>c. c"
      "SignalingOffer ''B'' ''A'' (JObj [(''type'', JStr ''offer''), (''sdp'', JStr ''v=0'')])"]
    encode_decode_roundtrip [of Some "\<lambda>c. c" "SignalingPeerList [] [] [''A'', ''B''] ''AB12'' ''r1''"]
    encode_decode_roundtrip [of Some "\<lambda>c. c" "SignalingCreateRoom ''A'' ''AB12''"]
    encode_decode_roundtrip [of Some "\<lambda>c. c" "SignalingError ''A'' ''Room AB12 does not exist.''"]
  by simp


section \<open>Leaving a room one is not in\<close>

text \<open>
  C9. When the \<open>roomId\<close> of the sender's \<open>ClientInfo\<close> names a room whose non-empty member
  list does not hold the sender, \<open>leaveRoom\<close> removes the last member of that list
  (\<open>indexOf\<close> is \<open>-1\<close>, and \<open>splice(-1, 1)\<close> cuts the last element): the room keeps the
  other members, or is deleted when there was one.
\<close>

theorem leaveRoom_absent_sender_drops_last:
  assumes "roomId client = Some rid" and "map_of (rooms s) rid = Some room"
    and "room \<noteq> []" and "senderId \<notin> set room"
  shows "rooms (leaveRoom senderId client s) =
           (if butlast room = [] then AList.delete rid (rooms s)
            else AList.update rid (butlast room) (rooms s))"
proof -
  have "splice_js room (indexOf room senderId) 1 = butlast room"
    using assms(3,4) by (simp add: indexOf_notin splice_js_last)
  with assms(1,2) show ?thesis
    by (simp add: leaveRoom_def Let_def AList.delete_update_same)
qed

text \<open>
  C9, witness: \<open>A\<close>, \<open>B\<close> and \<open>C\<close> are in a room and \<open>B\<close> leaves; the registry still has
  the room as \<open>B\<close>'s. A second \<open>LeaveRoom\<close> of \<open>B\<close> removes \<open>C\<close>.
\<close>

theorem leaveRoom_absent_sender_drops_last_witness:
  "run (three_members @ [Message rnd1 (SignalingLeaveRoom ''B'') 2]) initial = Inr b_left
   \<and> map_of (clients b_left) ''B'' = Some \<lparr>socket = 2, roomId = Some ''r1''\<rparr>
   \<and> map_of (rooms b_left) ''r1'' = Some [''A'', ''C'']
   \<and> rooms (leaveRoom ''B'' \<lparr>socket = 2, roomId = Some ''r1''\<rparr> b_left) = [(''r1'', [''A''])]"
proof -
  have r: "run (three_members @ [Message rnd1 (SignalingLeaveRoom ''B'') 2]) initial = Inr b_left"
    by code_simp
  have c: "map_of (clients b_left) ''B'' = Some \<lparr>socket = 2, roomId = Some ''r1''\<rparr>"
    by code_simp
  have m: "map_of (rooms b_left) ''r1'' = Some [''A'', ''C'']" by code_simp
  have u: "AList.update ''r1'' [''A''] (rooms b_left) = [(''r1'', [''A''])]" by code_simp
  from leaveRoom_absent_sender_drops_last
         [of "\<lparr>socket = 2, roomId = Some ''r1''\<rparr>" "''r1''" b_left "[''A'', ''C'']" "''B''"] m u
  have "rooms (leaveRoom ''B'' \<lparr>socket = 2, roomId = Some ''r1''\<rparr> b_left) = [(''r1'', [''A''])]"
    by simp
  with r c m show ?thesis by simp
qed


section \<open>Cleanup without an address\<close>

text \<open>
  C10. When \<open>removeClient\<close> is called with an absent address (\<open>ip == null\<close>) it returns at
  once: the state after the call is the state before it, so the client stays in
  \<open>clients\<close>, no member list and no room changes, and no connection count changes.
\<close>

theorem removeClient_absent_address_unchanged:
  "removeClient clientId None s = s"
  by (simp add: removeClient_def)

end
